theory Spec2Isabelle
  imports Complex_Main "HOL-Library.AList" "HOL-Library.Sublist"
begin

section \<open>Data model of \<open>src/index.tsx\<close>\<close>

text \<open>
  JavaScript strings are modelled as \<^typ>\<open>string\<close>. The Chinese labels of the source's
  constant tables are written as their UTF-8 bytes through \<open>utf8\<close>; every key that the
  program compares is ASCII.
\<close>

definition utf8 :: "nat list \<Rightarrow> string" where
  "utf8 bs = map char_of bs"

text \<open>
  A value produced by \<open>JSON.parse\<close>. A property that is absent (\<open>undefined\<close>) is
  \<open>None\<close> of \<open>json option\<close>. Numbers are rationals.
\<close>

datatype json =
    JNull
  | JBool bool
  | JNum rat
  | JStr string
  | JArr "json list"
  | JObj "(string \<times> json) list"

datatype FieldType = T_text | T_number | T_select | T_multiselect | T_date | T_rating

record FieldSchema =
  fs_key :: string
  fs_label :: string
  fs_type :: FieldType
  fs_required :: "bool option"
  fs_options :: "string list option"
  fs_unit :: "string option"
  fs_placeholder :: "string option"

record GroupDef =
  g_id :: string
  g_label :: string

record CategoryMeta =
  cm_group :: string
  cm_label :: string
  cm_color :: string
  cm_icon :: string

text \<open>
  \<open>interface Entry\<close>. The fields \<open>date\<close>, \<open>category\<close>, \<open>event\<close> and \<open>details\<close> of
  an entry built from the extraction output hold whatever JSON value the candidate
  carried, so they are \<^typ>\<open>json\<close> values here (\<open>None\<close> where the candidate had no
  such property).
\<close>

record Entry =
  e_id :: string
  e_date :: json
  e_category :: "json option"
  e_event :: "json option"
  e_details :: json
  e_image :: "string option"

datatype Role = User | Model | System

record ChatMessage =
  m_role :: Role
  m_text :: string
  m_timestamp :: int
  m_relatedEntryIds :: "string list option"

record RawLog =
  rl_id :: string
  rl_timestamp :: int
  rl_text :: string

datatype ContextMode = Global | Today | Week | Custom

record ChatSettings =
  chatEnabled :: bool
  organizerEnabled :: bool
  contextRounds :: int
  contextMode :: ContextMode
  customStartDate :: string
  customEndDate :: string

text \<open>
  The React state of \<open>Index\<close> that the modelled handlers read or write. An object used
  as a dictionary (\<open>Record<string, _>\<close>) is an association list in insertion order.
  \<open>abortControllerRef\<close> holds the \<open>aborted\<close> flag of the controller it points to.
\<close>

record app_state =
  entries :: "Entry list"
  messages :: "ChatMessage list"
  rawLogs :: "RawLog list"
  inputText :: string
  isProcessing :: bool
  abortControllerRef :: "bool option"
  chatSettings :: ChatSettings
  customSchemas :: "(string \<times> FieldSchema list) list"
  groups :: "GroupDef list"
  categoryMeta :: "(string \<times> CategoryMeta) list"
  editingSchemaCat :: "string option"

section \<open>Taxonomy registry\<close>

definition INITIAL_GROUPS :: "GroupDef list" where
  "INITIAL_GROUPS = [
     \<lparr>g_id = ''life'', g_label = utf8 [230, 151, 165, 229, 184, 184]\<rparr>,
     \<lparr>g_id = ''body'', g_label = utf8 [232, 186, 171, 228, 189, 147]\<rparr>,
     \<lparr>g_id = ''work'', g_label = utf8 [229, 183, 165, 228, 189, 156]\<rparr>]"

definition INITIAL_CATEGORY_META :: "(string \<times> CategoryMeta) list" where
  "INITIAL_CATEGORY_META = [
     (''finance_tracking'', \<lparr>cm_group = ''life'', cm_label = utf8 [232, 174, 176, 232,
         180, 166], cm_color = ''bg-emerald-500'', cm_icon = ''Wallet''\<rparr>),
     (''diary'', \<lparr>cm_group = ''life'', cm_label = utf8 [230, 151, 165, 232, 174, 176,
         47, 231, 162, 142, 231, 162, 142, 229, 191, 181], cm_color = ''bg-indigo-500'',
         cm_icon = ''BookHeart''\<rparr>),
     (''study'', \<lparr>cm_group = ''life'', cm_label = utf8 [229, 173, 166, 228, 185, 160],
         cm_color = ''bg-blue-500'', cm_icon = ''GraduationCap''\<rparr>),
     (''entertainment'', \<lparr>cm_group = ''life'', cm_label = utf8 [229, 168, 177, 228, 185,
         144], cm_color = ''bg-purple-500'', cm_icon = ''Gamepad2''\<rparr>),
     (''movie'', \<lparr>cm_group = ''life'', cm_label = utf8 [232, 167, 130, 229, 189, 177],
         cm_color = ''bg-pink-500'', cm_icon = ''Film''\<rparr>),
     (''reading'', \<lparr>cm_group = ''life'', cm_label = utf8 [232, 175, 187, 228, 185, 166],
         cm_color = ''bg-amber-600'', cm_icon = ''BookOpen''\<rparr>),
     (''dining'', \<lparr>cm_group = ''life'', cm_label = utf8 [233, 164, 144, 233, 165, 174],
         cm_color = ''bg-orange-500'', cm_icon = ''Utensils''\<rparr>),
     (''housework'', \<lparr>cm_group = ''life'', cm_label = utf8 [229, 174, 182, 229, 138,
         161], cm_color = ''bg-cyan-600'', cm_icon = ''Home''\<rparr>),
     (''personal_care'', \<lparr>cm_group = ''life'', cm_label = utf8 [228, 184, 170, 228, 186,
         186, 230, 138, 164, 231, 144, 134], cm_color = ''bg-rose-400'',
         cm_icon = ''Sparkles''\<rparr>),
     (''exercise'', \<lparr>cm_group = ''body'', cm_label = utf8 [233, 148, 187, 231, 130,
         188], cm_color = ''bg-orange-600'', cm_icon = ''Dumbbell''\<rparr>),
     (''sleep'', \<lparr>cm_group = ''body'', cm_label = utf8 [231, 157, 161, 231, 156, 160],
         cm_color = ''bg-slate-500'', cm_icon = ''Moon''\<rparr>),
     (''weight'', \<lparr>cm_group = ''body'', cm_label = utf8 [228, 189, 147, 233, 135, 141],
         cm_color = ''bg-lime-600'', cm_icon = ''Scale''\<rparr>),
     (''medical'', \<lparr>cm_group = ''body'', cm_label = utf8 [231, 156, 139, 231, 151, 133],
         cm_color = ''bg-red-500'', cm_icon = ''Stethoscope''\<rparr>),
     (''checkup'', \<lparr>cm_group = ''body'', cm_label = utf8 [228, 189, 147, 230, 163, 128],
         cm_color = ''bg-teal-500'', cm_icon = ''Activity''\<rparr>),
     (''physiology'', \<lparr>cm_group = ''body'', cm_label = utf8 [231, 148, 159, 231, 144,
         134, 230, 156, 159], cm_color = ''bg-rose-600'', cm_icon = ''Droplet''\<rparr>),
     (''work'', \<lparr>cm_group = ''work'', cm_label = utf8 [229, 183, 165, 228, 189, 156],
         cm_color = ''bg-sky-600'', cm_icon = ''Briefcase''\<rparr>),
     (''idea'', \<lparr>cm_group = ''work'', cm_label = utf8 [231, 129, 181, 230, 132, 159],
         cm_color = ''bg-yellow-500'', cm_icon = ''Lightbulb''\<rparr>),
     (''other'', \<lparr>cm_group = ''life'', cm_label = utf8 [229, 133, 182, 228, 187, 150],
         cm_color = ''bg-gray-500'', cm_icon = ''Hash''\<rparr>)]"

text \<open>\<open>createSchema(specificFields)\<close>: the standard fields around the specific ones.\<close>

definition createSchema :: "FieldSchema list \<Rightarrow> FieldSchema list" where
  "createSchema specificFields =
     [
     \<lparr>fs_key = ''summary'', fs_label = utf8 [231, 174, 128, 232, 191, 176],
         fs_type = T_text, fs_required = Some True, fs_options = None, fs_unit = None,
         fs_placeholder = Some (utf8 [49, 48, 229, 173, 151, 228, 187, 165, 229, 134, 133, 229,
         133, 183, 228, 189, 147, 231, 154, 132, 228, 186, 139, 228, 187, 182, 230, 143, 143,
         232, 191, 176])\<rparr>,
     \<lparr>fs_key = ''time'', fs_label = utf8 [230, 151, 182, 233, 151, 180],
         fs_type = T_text, fs_required = Some True, fs_options = None, fs_unit = None,
         fs_placeholder = Some (''HH:mm'')\<rparr>,
     \<lparr>fs_key = ''duration'', fs_label = utf8 [230, 151, 182, 233, 149, 191],
         fs_type = T_text, fs_required = Some False, fs_options = None, fs_unit = None,
         fs_placeholder = Some (utf8 [228, 190, 139, 229, 166, 130, 58, 32, 51, 48, 229, 136,
         134, 233, 146, 159])\<rparr>]
     @ specificFields @
     [
     \<lparr>fs_key = ''notes'', fs_label = utf8 [232, 175, 166, 230, 131, 133],
         fs_type = T_text, fs_required = Some True, fs_options = None, fs_unit = None,
         fs_placeholder = Some (utf8 [229, 142, 159, 229, 167, 139, 228, 191, 161, 230, 129,
         175, 229, 133, 168, 233, 131, 168, 229, 134, 133, 229, 174, 185, 229, 142, 159, 229,
         176, 129, 228, 184, 141, 229, 138, 168, 231, 154, 132, 229, 161, 171, 229, 134, 153,
         229, 156, 168, 232, 191, 153, 233, 135, 140])\<rparr>]"

definition INITIAL_SCHEMAS :: "(string \<times> FieldSchema list) list" where
  "INITIAL_SCHEMAS = [
     (''finance_tracking'', createSchema [\<lparr>fs_key = ''transaction_type'',
         fs_label = utf8 [228, 186, 164, 230, 152, 147, 231, 177, 187, 229, 158, 139],
         fs_type = T_select, fs_required = Some True, fs_options = Some [utf8 [230, 148, 175,
         229, 135, 186], utf8 [230, 148, 182, 229, 133, 165], utf8 [232, 189, 172, 232, 180,
         166]], fs_unit = None, fs_placeholder = None\<rparr>,
        \<lparr>fs_key = ''amount'', fs_label = utf8 [233, 135, 145, 233, 162, 157],
            fs_type = T_number, fs_required = Some True, fs_options = None,
            fs_unit = Some (utf8 [229, 133, 131]), fs_placeholder = None\<rparr>,
        \<lparr>fs_key = ''currency'', fs_label = utf8 [232, 180, 167, 229, 184, 129],
            fs_type = T_select, fs_required = Some True, fs_options = Some [''CNY'', ''USD'',
            ''EUR'', ''JPY'', ''HKD''], fs_unit = None, fs_placeholder = None\<rparr>,
        \<lparr>fs_key = ''tags'', fs_label = utf8 [229, 136, 134, 231, 177, 187],
            fs_type = T_multiselect, fs_required = Some True, fs_options = Some [utf8 [233,
            164, 144, 233, 165, 174], utf8 [228, 186, 164, 233, 128, 154], utf8 [232, 180, 173,
            231, 137, 169], utf8 [229, 168, 177, 228, 185, 144], utf8 [229, 140, 187, 231, 150,
            151], utf8 [230, 149, 153, 232, 130, 178], utf8 [228, 189, 143, 230, 136, 191],
            utf8 [230, 151, 133, 232, 161, 140], utf8 [228, 186, 186, 230, 131, 133],
            utf8 [229, 183, 165, 232, 181, 132], utf8 [231, 144, 134, 232, 180, 162],
            utf8 [229, 133, 182, 228, 187, 150]], fs_unit = None, fs_placeholder = None\<rparr>,
        \<lparr>fs_key = ''payment_method'', fs_label = utf8 [230, 148, 175, 228, 187, 152,
            230, 150, 185, 229, 188, 143], fs_type = T_select, fs_required = Some False,
            fs_options = Some [utf8 [229, 190, 174, 228, 191, 161], utf8 [230, 148, 175, 228,
            187, 152, 229, 174, 157], utf8 [228, 191, 161, 231, 148, 168, 229, 141, 161],
            utf8 [229, 130, 168, 232, 147, 132, 229, 141, 161], utf8 [231, 142, 176, 233, 135,
            145]], fs_unit = None, fs_placeholder = None\<rparr>,
        \<lparr>fs_key = ''merchant'', fs_label = utf8 [229, 149, 134, 229, 174, 182, 47, 229,
            175, 185, 232, 177, 161], fs_type = T_text, fs_required = Some False,
            fs_options = None, fs_unit = None, fs_placeholder = None\<rparr>]),
     (''movie'', createSchema [\<lparr>fs_key = ''title'', fs_label = utf8 [231, 148, 181, 229,
         189, 177, 229, 144, 141, 231, 167, 176], fs_type = T_text, fs_required = Some True,
         fs_options = None, fs_unit = None, fs_placeholder = None\<rparr>,
        \<lparr>fs_key = ''genre'', fs_label = utf8 [231, 177, 187, 229, 136, 171],
            fs_type = T_text, fs_required = Some False, fs_options = None, fs_unit = None,
            fs_placeholder = None\<rparr>,
        \<lparr>fs_key = ''rating'', fs_label = utf8 [232, 175, 132, 229, 136, 134],
            fs_type = T_rating, fs_required = Some False, fs_options = None, fs_unit = None,
            fs_placeholder = None\<rparr>]),
     (''exercise'', createSchema [\<lparr>fs_key = ''type'', fs_label = utf8 [232, 191, 144,
         229, 138, 168, 233, 161, 185, 231, 155, 174], fs_type = T_text,
         fs_required = Some True, fs_options = None, fs_unit = None,
         fs_placeholder = None\<rparr>,
        \<lparr>fs_key = ''calories'', fs_label = utf8 [230, 182, 136, 232, 128, 151, 229, 141,
            161, 232, 183, 175, 233, 135, 140], fs_type = T_number, fs_required = Some False,
            fs_options = None, fs_unit = None, fs_placeholder = None\<rparr>,
        \<lparr>fs_key = ''feeling'', fs_label = utf8 [230, 132, 159, 229, 143, 151],
            fs_type = T_text, fs_required = Some False, fs_options = None, fs_unit = None,
            fs_placeholder = None\<rparr>]),
     (''sleep'', createSchema [\<lparr>fs_key = ''waketime'', fs_label = utf8 [233, 134, 146,
         230, 157, 165, 230, 151, 182, 233, 151, 180], fs_type = T_text,
         fs_required = Some False, fs_options = None, fs_unit = None,
         fs_placeholder = None\<rparr>,
        \<lparr>fs_key = ''quality'', fs_label = utf8 [231, 157, 161, 231, 156, 160, 232, 180,
            168, 233, 135, 143], fs_type = T_select, fs_required = Some False,
            fs_options = Some [utf8 [229, 190, 136, 229, 165, 189], utf8 [232, 191, 152, 232,
            161, 140], utf8 [228, 184, 128, 232, 136, 172], utf8 [229, 183, 174]],
            fs_unit = None, fs_placeholder = None\<rparr>]),
     (''personal_care'', createSchema [\<lparr>fs_key = ''item'', fs_label = utf8 [230, 138,
         164, 231, 144, 134, 233, 161, 185, 231, 155, 174], fs_type = T_text,
         fs_required = Some True, fs_options = None, fs_unit = None,
         fs_placeholder = None\<rparr>,
        \<lparr>fs_key = ''product'', fs_label = utf8 [228, 189, 191, 231, 148, 168, 228, 186,
            167, 229, 147, 129], fs_type = T_text, fs_required = Some False, fs_options = None,
            fs_unit = None, fs_placeholder = None\<rparr>]),
     (''weight'', createSchema [\<lparr>fs_key = ''value'', fs_label = utf8 [228, 189, 147,
         233, 135, 141, 40, 107, 103, 41], fs_type = T_number, fs_required = Some True,
         fs_options = None, fs_unit = None, fs_placeholder = None\<rparr>,
        \<lparr>fs_key = ''fat_rate'', fs_label = utf8 [228, 189, 147, 232, 132, 130, 231, 142,
            135, 40, 37, 41], fs_type = T_number, fs_required = Some False, fs_options = None,
            fs_unit = None, fs_placeholder = None\<rparr>]),
     (''diary'', createSchema [\<lparr>fs_key = ''mood'', fs_label = utf8 [229, 191, 131, 230,
         131, 133], fs_type = T_text, fs_required = Some False, fs_options = None,
         fs_unit = None, fs_placeholder = None\<rparr>,
        \<lparr>fs_key = ''weather'', fs_label = utf8 [229, 164, 169, 230, 176, 148],
            fs_type = T_text, fs_required = Some False, fs_options = None, fs_unit = None,
            fs_placeholder = None\<rparr>]),
     (''reading'', createSchema [\<lparr>fs_key = ''book_name'', fs_label = utf8 [228, 185,
         166, 229, 144, 141], fs_type = T_text, fs_required = Some True, fs_options = None,
         fs_unit = None, fs_placeholder = None\<rparr>,
        \<lparr>fs_key = ''author'', fs_label = utf8 [228, 189, 156, 232, 128, 133],
            fs_type = T_text, fs_required = Some False, fs_options = None, fs_unit = None,
            fs_placeholder = None\<rparr>,
        \<lparr>fs_key = ''progress'', fs_label = utf8 [232, 191, 155, 229, 186, 166],
            fs_type = T_text, fs_required = Some False, fs_options = None, fs_unit = None,
            fs_placeholder = None\<rparr>]),
     (''dining'', createSchema [\<lparr>fs_key = ''food_items'', fs_label = utf8 [233, 163,
         159, 231, 137, 169], fs_type = T_text, fs_required = Some True, fs_options = None,
         fs_unit = None, fs_placeholder = None\<rparr>,
        \<lparr>fs_key = ''calories'', fs_label = utf8 [231, 131, 173, 233, 135, 143],
            fs_type = T_number, fs_required = Some False, fs_options = None, fs_unit = None,
            fs_placeholder = None\<rparr>]),
     (''housework'', createSchema [\<lparr>fs_key = ''task'', fs_label = utf8 [228, 187, 187,
         229, 138, 161], fs_type = T_text, fs_required = Some True, fs_options = None,
         fs_unit = None, fs_placeholder = None\<rparr>,
        \<lparr>fs_key = ''area'', fs_label = utf8 [229, 140, 186, 229, 159, 159],
            fs_type = T_text, fs_required = Some False, fs_options = None, fs_unit = None,
            fs_placeholder = None\<rparr>]),
     (''medical'', createSchema [\<lparr>fs_key = ''symptom'', fs_label = utf8 [231, 151, 135,
         231, 138, 182], fs_type = T_text, fs_required = Some True, fs_options = None,
         fs_unit = None, fs_placeholder = None\<rparr>,
        \<lparr>fs_key = ''diagnosis'', fs_label = utf8 [232, 175, 138, 230, 150, 173],
            fs_type = T_text, fs_required = Some False, fs_options = None, fs_unit = None,
            fs_placeholder = None\<rparr>,
        \<lparr>fs_key = ''medicine'', fs_label = utf8 [232, 141, 175, 231, 137, 169],
            fs_type = T_text, fs_required = Some False, fs_options = None, fs_unit = None,
            fs_placeholder = None\<rparr>]),
     (''checkup'', createSchema [\<lparr>fs_key = ''hospital'', fs_label = utf8 [229, 140, 187,
         233, 153, 162], fs_type = T_text, fs_required = Some False, fs_options = None,
         fs_unit = None, fs_placeholder = None\<rparr>,
        \<lparr>fs_key = ''project'', fs_label = utf8 [233, 161, 185, 231, 155, 174],
            fs_type = T_text, fs_required = Some True, fs_options = None, fs_unit = None,
            fs_placeholder = None\<rparr>,
        \<lparr>fs_key = ''result'', fs_label = utf8 [231, 187, 147, 230, 158, 156],
            fs_type = T_text, fs_required = Some False, fs_options = None, fs_unit = None,
            fs_placeholder = None\<rparr>]),
     (''physiology'', createSchema [\<lparr>fs_key = ''status'', fs_label = utf8 [231, 138,
         182, 230, 128, 129], fs_type = T_select, fs_required = Some True,
         fs_options = Some [utf8 [229, 188, 128, 229, 167, 139], utf8 [231, 187, 147, 230, 157,
         159], utf8 [230, 181, 129, 233, 135, 143, 229, 164, 167], utf8 [230, 181, 129, 233,
         135, 143, 229, 176, 143], utf8 [231, 151, 155, 231, 187, 143]], fs_unit = None,
         fs_placeholder = None\<rparr>]),
     (''work'', createSchema [\<lparr>fs_key = ''project'', fs_label = utf8 [233, 161, 185,
         231, 155, 174], fs_type = T_text, fs_required = Some False, fs_options = None,
         fs_unit = None, fs_placeholder = None\<rparr>,
        \<lparr>fs_key = ''task'', fs_label = utf8 [228, 187, 187, 229, 138, 161],
            fs_type = T_text, fs_required = Some True, fs_options = None, fs_unit = None,
            fs_placeholder = None\<rparr>,
        \<lparr>fs_key = ''status'', fs_label = utf8 [231, 138, 182, 230, 128, 129],
            fs_type = T_select, fs_required = Some True, fs_options = Some [utf8 [232, 191,
            155, 232, 161, 140, 228, 184, 173], utf8 [229, 183, 178, 229, 174, 140, 230, 136,
            144], utf8 [229, 187, 182, 230, 156, 159]], fs_unit = None,
            fs_placeholder = None\<rparr>]),
     (''idea'', createSchema [\<lparr>fs_key = ''topic'', fs_label = utf8 [228, 184, 187, 233,
         162, 152], fs_type = T_text, fs_required = Some True, fs_options = None,
         fs_unit = None, fs_placeholder = None\<rparr>]),
     (''study'', createSchema [\<lparr>fs_key = ''subject'', fs_label = utf8 [231, 167, 145,
         231, 155, 174], fs_type = T_text, fs_required = Some True, fs_options = None,
         fs_unit = None, fs_placeholder = None\<rparr>,
        \<lparr>fs_key = ''content'', fs_label = utf8 [229, 134, 133, 229, 174, 185],
            fs_type = T_text, fs_required = Some True, fs_options = None, fs_unit = None,
            fs_placeholder = None\<rparr>]),
     (''entertainment'', createSchema [\<lparr>fs_key = ''activity'', fs_label = utf8 [230,
         180, 187, 229, 138, 168], fs_type = T_text, fs_required = Some True,
         fs_options = None, fs_unit = None, fs_placeholder = None\<rparr>,
        \<lparr>fs_key = ''partners'', fs_label = utf8 [229, 144, 140, 228, 188, 180],
            fs_type = T_text, fs_required = Some False, fs_options = None, fs_unit = None,
            fs_placeholder = None\<rparr>])]"

datatype js_error = TypeError | SyntaxError | TransportError string

text \<open>The idiom \<open>customSchemas[cat] || []\<close>: the field list of a category.\<close>

definition fieldsOf :: "(string \<times> FieldSchema list) list \<Rightarrow> string \<Rightarrow> FieldSchema list" where
  "fieldsOf schemas cat = (case map_of schemas cat of None \<Rightarrow> [] | Some fs \<Rightarrow> fs)"

definition standardFields :: "string list" where
  "standardFields = [''summary'', ''time'', ''duration'', ''notes'']"

text \<open>
  \<open>addCategory(groupId)\<close>. \<open>answer\<close> is what the \<open>prompt\<close> dialog returned
  (\<open>None\<close> for \<open>null\<close>) and \<open>rnd\<close> the random suffix of the new key.
\<close>

definition addCategory :: "string option \<Rightarrow> string \<Rightarrow> string \<Rightarrow> app_state \<Rightarrow> app_state" where
  "addCategory answer rnd groupId st =
     (case answer of
        None \<Rightarrow> st
      | Some lbl \<Rightarrow>
          if lbl = [] then st
          else (let k = ''cat_'' @ rnd
                in st\<lparr>categoryMeta := AList.update k
                         \<lparr>cm_group = groupId, cm_label = lbl, cm_color = ''bg-gray-600'',
                          cm_icon = ''Hash''\<rparr> (categoryMeta st),
                       customSchemas := AList.update k (createSchema []) (customSchemas st),
                       editingSchemaCat := Some k\<rparr>))"

text \<open>\<open>findIndex\<close> of the first field whose key is \<open>notes\<close>; \<open>None\<close> for \<open>-1\<close>.\<close>

fun findIndex :: "('a \<Rightarrow> bool) \<Rightarrow> 'a list \<Rightarrow> nat option" where
  "findIndex p [] = None"
| "findIndex p (x # xs) =
     (if p x then Some 0 else (case findIndex p xs of None \<Rightarrow> None | Some i \<Rightarrow> Some (Suc i)))"

text \<open>\<open>addField()\<close> on the category being edited; \<open>rnd\<close> is the random suffix of the key.\<close>

definition addField :: "string \<Rightarrow> app_state \<Rightarrow> app_state" where
  "addField rnd st =
     (case editingSchemaCat st of
        None \<Rightarrow> st
      | Some cat \<Rightarrow>
          if cat = [] then st
          else (let newField = \<lparr>fs_key = ''field_'' @ rnd, fs_label = ''New Field'',
                                 fs_type = T_text, fs_required = Some False, fs_options = None,
                                 fs_unit = None, fs_placeholder = None\<rparr>;
                    currentFields = fieldsOf (customSchemas st) cat;
                    fields' = (case findIndex (\<lambda>f. fs_key f = ''notes'') currentFields of
                                 Some notesIdx \<Rightarrow>
                                   take notesIdx currentFields @ [newField] @ drop notesIdx currentFields
                               | None \<Rightarrow> currentFields @ [newField])
                in st\<lparr>customSchemas := AList.update cat fields' (customSchemas st)\<rparr>))"

text \<open>
  \<open>removeField(idx)\<close> on the category being edited, with the user's answer to the
  \<open>confirm\<close> dialog. Reading \<open>f.key\<close> of an index outside the field list is a
  \<open>TypeError\<close>. The first component of a normal result is the \<open>alert\<close> shown, if any.
\<close>

definition removeField :: "bool \<Rightarrow> nat \<Rightarrow> app_state \<Rightarrow> js_error + (string option \<times> app_state)" where
  "removeField confirmed idx st =
     (case editingSchemaCat st of
        None \<Rightarrow> Inr (None, st)
      | Some cat \<Rightarrow>
          if cat = [] then Inr (None, st)
          else (let currentFields = fieldsOf (customSchemas st) cat
                in if idx < length currentFields
                   then (let f = currentFields ! idx
                         in if fs_key f \<in> set standardFields
                            then Inr (Some ''Cannot delete standard fields'', st)
                            else if confirmed
                            then Inr (None, st\<lparr>customSchemas :=
                                   AList.update cat (take idx currentFields @ drop (Suc idx) currentFields)
                                     (customSchemas st)\<rparr>)
                            else Inr (None, st))
                   else Inl TypeError))"

text \<open>
  \<open>deleteGroup(id)\<close>. The first argument is the user's answer to the \<open>confirm\<close>
  dialog; the first component of the result is the \<open>alert\<close> shown, if any.
\<close>

definition deleteGroup :: "bool \<Rightarrow> string \<Rightarrow> app_state \<Rightarrow> string option \<times> app_state" where
  "deleteGroup confirmed gid st =
     (if list_ex (\<lambda>g. g_id g = gid) INITIAL_GROUPS
      then (Some ''Cannot delete core groups.'', st)
      else if confirmed
      then (None, st\<lparr>groups := filter (\<lambda>g. g_id g \<noteq> gid) (groups st)\<rparr>)
      else (None, st))"

text \<open>
  \<open>deleteCategory(key)\<close>, with the user's answer to the \<open>confirm\<close> dialog.
\<close>

definition deleteCategory :: "bool \<Rightarrow> string \<Rightarrow> app_state \<Rightarrow> app_state" where
  "deleteCategory confirmed k st =
     (if confirmed
      then (let st1 = st\<lparr>categoryMeta := AList.delete k (categoryMeta st)\<rparr>
            in if editingSchemaCat st = Some k then st1\<lparr>editingSchemaCat := None\<rparr> else st1)
      else st)"

section \<open>The JavaScript runtime\<close>

text \<open>
  What the handlers ask of the JavaScript engine and cannot be read off the source:
  \<^item> \<open>JSON_parse s\<close> is \<open>JSON.parse(s)\<close>, \<open>None\<close> where it throws a \<open>SyntaxError\<close>;
  \<^item> \<open>Date_getTime s\<close> is \<open>new Date(s).getTime()\<close>, \<open>None\<close> for \<open>NaN\<close>;
  \<^item> \<open>Date_ymd t\<close> is \<open>(getFullYear(), getMonth(), getDate())\<close> of \<open>new Date(t)\<close>, in
    the local time zone;
  \<^item> \<open>Date_setHours t h m s ms\<close> and \<open>Date_setDate t d\<close> are the time values of
    \<open>new Date(t)\<close> after \<open>setHours(h, m, s, ms)\<close> and after \<open>setDate(d)\<close>;
  \<^item> \<open>Number_toString\<close> and \<open>String_toNumber\<close> are the conversions of a number to a
    string and of a string to a number (\<open>None\<close> for \<open>NaN\<close>);
  \<^item> \<open>String_trim s\<close> is \<open>s.trim()\<close>.
  Time values are integers (milliseconds since the epoch).
\<close>

record js_runtime =
  JSON_parse :: "string \<Rightarrow> json option"
  Date_getTime :: "string \<Rightarrow> int option"
  Date_ymd :: "int \<Rightarrow> int \<times> int \<times> int"
  Date_setHours :: "int \<Rightarrow> int \<Rightarrow> int \<Rightarrow> int \<Rightarrow> int \<Rightarrow> int"
  Date_setDate :: "int \<Rightarrow> int \<Rightarrow> int"
  Number_toString :: "rat \<Rightarrow> string"
  String_toNumber :: "string \<Rightarrow> rat option"
  String_trim :: "string \<Rightarrow> string"

text \<open>\<open>xs.slice(start)\<close> of an array, for an integer \<open>start\<close>.\<close>

definition js_slice :: "int \<Rightarrow> 'a list \<Rightarrow> 'a list" where
  "js_slice start xs =
     (let len = int (length xs);
          k = (if start < 0 then max (len + start) 0 else min start len)
      in drop (nat k) xs)"

text \<open>\<open>t >= x\<close> and \<open>t <= x\<close> where \<open>x\<close> may be \<open>NaN\<close>: false then.\<close>

definition js_ge :: "int \<Rightarrow> int option \<Rightarrow> bool" where
  "js_ge t x = (case x of None \<Rightarrow> False | Some v \<Rightarrow> t \<ge> v)"

definition js_le :: "int \<Rightarrow> int option \<Rightarrow> bool" where
  "js_le t x = (case x of None \<Rightarrow> False | Some v \<Rightarrow> t \<le> v)"

section \<open>Context window selector\<close>

definition getRollingWeekRange :: "js_runtime \<Rightarrow> int \<Rightarrow> int \<times> int" where
  "getRollingWeekRange rt startDate =
     (let start = Date_setHours rt startDate 0 0 0 0;
          getDate = (\<lambda>t. snd (snd (Date_ymd rt t)));
          end1 = Date_setDate rt start (getDate start + 6);
          end2 = Date_setHours rt end1 23 59 59 999
      in (start, end2))"

definition isSameDay :: "js_runtime \<Rightarrow> int \<Rightarrow> int \<Rightarrow> bool" where
  "isSameDay rt d1 d2 =
     (case (Date_ymd rt d1, Date_ymd rt d2) of
        ((y1, mo1, day1), (y2, mo2, day2)) \<Rightarrow> y1 = y2 \<and> mo1 = mo2 \<and> day1 = day2)"

text \<open>
  \<open>getFilteredHistory()\<close> over the \<open>messages\<close> and \<open>chatSettings\<close> of the state;
  \<open>now\<close> is the time value of its \<open>new Date()\<close>.
\<close>

definition getFilteredHistory :: "js_runtime \<Rightarrow> int \<Rightarrow> app_state \<Rightarrow> ChatMessage list" where
  "getFilteredHistory rt now st =
     (let cs = chatSettings st;
          filtered0 = filter (\<lambda>m. m_role m = User) (messages st);
          filtered1 =
            (case contextMode cs of
               Today \<Rightarrow> filter (\<lambda>m. isSameDay rt (m_timestamp m) now) filtered0
             | Week \<Rightarrow>
                 (case getRollingWeekRange rt now of
                    (start, end2) \<Rightarrow>
                      filter (\<lambda>m. m_timestamp m \<ge> start \<and> m_timestamp m \<le> end2) filtered0)
             | Custom \<Rightarrow>
                 (let s = Date_getTime rt (customStartDate cs);
                      e = map_option (\<lambda>t. t + 86400000) (Date_getTime rt (customEndDate cs))
                  in filter (\<lambda>m. js_ge (m_timestamp m) s \<and> js_le (m_timestamp m) e) filtered0)
             | Global \<Rightarrow> filtered0)
      in if contextRounds cs < 9999 then js_slice (- contextRounds cs) filtered1 else filtered1)"

section \<open>Conversions of JSON values\<close>

text \<open>Truthiness of a value, as \<open>||\<close>, \<open>&&\<close> and \<open>if\<close> test it.\<close>

fun truthy :: "json \<Rightarrow> bool" where
  "truthy JNull = False"
| "truthy (JBool b) = b"
| "truthy (JNum n) = (n \<noteq> 0)"
| "truthy (JStr s) = (s \<noteq> [])"
| "truthy (JArr xs) = True"
| "truthy (JObj kvs) = True"

text \<open>
  \<open>d.k\<close> for a parsed value \<open>d\<close> and one of the names \<open>date\<close>, \<open>category\<close>,
  \<open>event\<close>, \<open>details\<close>, none of which a prototype provides: the object's own property,
  \<open>undefined\<close> on every other value, and a \<open>TypeError\<close> on \<open>null\<close>.
\<close>

fun getProp :: "json \<Rightarrow> string \<Rightarrow> js_error + json option" where
  "getProp JNull k = Inl TypeError"
| "getProp (JObj kvs) k = Inr (map_of kvs k)"
| "getProp d k = Inr None"

text \<open>\<open>xs.join(sep)\<close> of an array of strings.\<close>

fun js_join :: "string \<Rightarrow> string list \<Rightarrow> string" where
  "js_join sep [] = []"
| "js_join sep [x] = x"
| "js_join sep (x # y # ys) = x @ sep @ js_join sep (y # ys)"

text \<open>
  The string a template literal makes of a parsed value; \<open>None\<close> is the \<open>TypeError\<close>
  of an object whose own \<open>toString\<close> property hides the inherited method. An array is
  its elements joined by commas, \<open>null\<close> elements giving the empty string.
\<close>

fun js_toString :: "js_runtime \<Rightarrow> json \<Rightarrow> string option" where
  "js_toString rt JNull = Some ''null''"
| "js_toString rt (JBool b) = Some (if b then ''true'' else ''false'')"
| "js_toString rt (JNum n) = Some (Number_toString rt n)"
| "js_toString rt (JStr s) = Some s"
| "js_toString rt (JArr xs) =
     map_option (js_join '','')
       (those (map (\<lambda>x. if x = JNull then Some [] else js_toString rt x) xs))"
| "js_toString rt (JObj kvs) =
     (if ''toString'' \<in> set (map fst kvs) then None else Some ''[object Object]'')"

definition js_toString_opt :: "js_runtime \<Rightarrow> json option \<Rightarrow> string option" where
  "js_toString_opt rt v = (case v of None \<Rightarrow> Some ''undefined'' | Some x \<Rightarrow> js_toString rt x)"

text \<open>\<open>v > 0\<close> for a parsed value \<open>v\<close>; \<open>None\<close> is a \<open>TypeError\<close> of the conversion.\<close>

definition js_gt_zero :: "js_runtime \<Rightarrow> json \<Rightarrow> bool option" where
  "js_gt_zero rt v =
     (let positive = (\<lambda>s. case String_toNumber rt s of None \<Rightarrow> False | Some n \<Rightarrow> n > 0)
      in case v of
           JNull \<Rightarrow> Some False
         | JBool b \<Rightarrow> Some b
         | JNum n \<Rightarrow> Some (n > 0)
         | JStr s \<Rightarrow> Some (positive s)
         | JArr xs \<Rightarrow> map_option positive (js_toString rt v)
         | JObj kvs \<Rightarrow> (if ''toString'' \<in> set (map fst kvs) then None else Some False))"

section \<open>Extraction orchestrator\<close>

text \<open>
  How a call of \<open>ai.models.generateContent\<close> ends: the promise is rejected with an error
  of some message, or fulfilled with a response whose \<open>text\<close> is a string or
  \<open>undefined\<close>.
\<close>

datatype gen_outcome = Rejected string | Fulfilled "string option"

text \<open>
  The \<open>try\<close> block of \<open>organizeInput\<close>: what it returns, or the exception it throws.
  The request it sends (the prompt built from the organizer instructions, the date and
  the schemas, and the response schema) goes to the external model, whose answer
  \<open>out\<close> is an argument here.
\<close>

definition organizeInput_try :: "js_runtime \<Rightarrow> gen_outcome \<Rightarrow> js_error + json" where
  "organizeInput_try rt out =
     (case out of
        Rejected msg \<Rightarrow> Inl (TransportError msg)
      | Fulfilled txt \<Rightarrow>
          (case txt of
             None \<Rightarrow> Inr (JArr [])
           | Some t \<Rightarrow>
               if t = [] then Inr (JArr [])
               else (case JSON_parse rt t of None \<Rightarrow> Inl SyntaxError | Some v \<Rightarrow> Inr v)))"

text \<open>
  \<open>organizeInput(text, dateStr)\<close>; \<open>api_key\<close> tells whether \<open>GOOGLE_API_KEY\<close> is set.
\<close>

definition organizeInput :: "bool \<Rightarrow> js_runtime \<Rightarrow> gen_outcome \<Rightarrow> js_error + json" where
  "organizeInput api_key rt out =
     (if \<not> api_key then Inr (JArr [])
      else (case organizeInput_try rt out of
              Inl e \<Rightarrow> Inr (JArr [])
            | Inr v \<Rightarrow> Inr v))"

section \<open>Conversation session controller\<close>

text \<open>
  \<open>chatWithGemini(history, newMsg, signal, regenerate)\<close>: \<open>aborted\<close> is
  \<open>signal.aborted\<close> when it is called, \<open>out\<close> how the race of the model call against
  the abort listener ends (rejected with the message \<open>Aborted\<close> when the listener wins).
\<close>

definition chatWithGemini :: "bool \<Rightarrow> bool \<Rightarrow> gen_outcome \<Rightarrow> string" where
  "chatWithGemini api_key aborted out =
     (if \<not> api_key then ''Error: No API Key''
      else if aborted then []
      else (case out of
              Fulfilled txt \<Rightarrow> (case txt of None \<Rightarrow> [] | Some t \<Rightarrow> t)
            | Rejected msg \<Rightarrow>
                if msg = ''Aborted'' then [] else ''Thinking process interrupted or failed.''))"

definition handleStop :: "app_state \<Rightarrow> app_state" where
  "handleStop st =
     (case abortControllerRef st of
        None \<Rightarrow> st
      | Some a \<Rightarrow> st\<lparr>abortControllerRef := Some True, isProcessing := False\<rparr>)"

text \<open>
  One entry of \<open>structuredData.map(d => ...)\<close>, with the random id and
  \<open>today = formatDate(new Date())\<close>.
\<close>

definition toEntry :: "string \<Rightarrow> string \<Rightarrow> json \<Rightarrow> js_error + Entry" where
  "toEntry today rnd d =
     (case getProp d ''date'' of
        Inl e \<Rightarrow> Inl e
      | Inr date \<Rightarrow>
          (case getProp d ''category'' of
             Inl e \<Rightarrow> Inl e
           | Inr category \<Rightarrow>
               (case getProp d ''event'' of
                  Inl e \<Rightarrow> Inl e
                | Inr event \<Rightarrow>
                    Inr \<lparr>e_id = rnd,
                         e_date = (case date of None \<Rightarrow> JStr today
                                   | Some v \<Rightarrow> if truthy v then v else JStr today),
                         e_category = category,
                         e_event = event,
                         e_details = (case getProp d ''details'' of
                                        Inr (Some v) \<Rightarrow> if truthy v then v else JObj []
                                      | _ \<Rightarrow> JObj []),
                         e_image = None\<rparr>)))"

text \<open>The whole \<open>map\<close>: the \<open>i\<close>-th candidate takes the random id \<open>rnd i\<close>.\<close>

fun toEntries :: "string \<Rightarrow> (nat \<Rightarrow> string) \<Rightarrow> nat \<Rightarrow> json list \<Rightarrow> js_error + Entry list" where
  "toEntries today rnd i [] = Inr []"
| "toEntries today rnd i (d # ds) =
     (case toEntry today (rnd i) d of
        Inl e \<Rightarrow> Inl e
      | Inr x \<Rightarrow> (case toEntries today rnd (Suc i) ds of
                    Inl e \<Rightarrow> Inl e
                  | Inr xs \<Rightarrow> Inr (x # xs)))"

text \<open>
  The test \<open>structuredData && structuredData.length > 0\<close>; \<open>None\<close> is a
  \<open>TypeError\<close> of the comparison.
\<close>

definition hasCandidates :: "js_runtime \<Rightarrow> json \<Rightarrow> bool option" where
  "hasCandidates rt sd =
     (if \<not> truthy sd then Some False
      else (case sd of
              JArr ds \<Rightarrow> Some (length ds > 0)
            | JStr s \<Rightarrow> Some (length s > 0)
            | JObj kvs \<Rightarrow> (case map_of kvs ''length'' of
                            None \<Rightarrow> Some False
                          | Some v \<Rightarrow> js_gt_zero rt v)
            | _ \<Rightarrow> Some False))"

text \<open>The text of the \<open>system\<close> message: \<open>Saved: [date] event, ...\<close>.\<close>

definition savedText :: "js_runtime \<Rightarrow> Entry list \<Rightarrow> string option" where
  "savedText rt newEntries =
     map_option (\<lambda>parts. ''Saved: '' @ js_join '', '' parts)
       (those (map (\<lambda>e. case (js_toString rt (e_date e), js_toString_opt rt (e_event e)) of
                           (Some d, Some ev) \<Rightarrow> Some (''['' @ d @ ''] '' @ ev)
                         | _ \<Rightarrow> None) newEntries))"

text \<open>
  When the stop control is pressed during a turn: not at all, while the conversational
  call is awaited, or while the extraction call is awaited. A call that is not made, or
  that returns at once for want of an API key, leaves no time for the stop, which then
  does not happen.
\<close>

datatype stop_point = NoStop | StopDuringChat | StopDuringExtract

text \<open>
  Everything a run of \<open>handleSendMessage\<close> takes from outside the state: whether
  \<open>GOOGLE_API_KEY\<close> is set, the clock readings, the random strings, how the two model
  calls end, and when the user presses stop.
\<close>

record turn_env =
  api_key :: bool
  t_user :: int
  rawlog_rnd :: string
  now_history :: int
  chat_outcome :: gen_outcome
  t_model :: int
  today :: string
  extract_outcome :: gen_outcome
  entry_rnd :: "nat \<Rightarrow> string"
  t_system :: int
  stop :: stop_point

text \<open>A call of \<open>generateContent\<close> that was started, with what it was started for.\<close>

datatype request = ChatRequest "ChatMessage list" string | ExtractRequest string string

text \<open>
  How a run can fail: the handler itself throws, or it resolves and a state updater it
  queued throws when React applies the queued updates. In the second case React gives
  up the render, and none of the updates queued since the last \<open>await\<close> is committed.
\<close>

datatype turn_failure = HandlerThrows js_error | UpdaterThrows js_error

text \<open>
  The result of a run: the state it leaves, the failure that ended it (if any) and the
  model calls it started.
\<close>

record turn_result =
  tr_raised :: "turn_failure option"
  tr_requests :: "request list"
  tr_state :: app_state

text \<open>
  The block guarded by \<open>structuredData && structuredData.length > 0\<close>. Calling
  \<open>map\<close> on a value that is not an array is a \<open>TypeError\<close> of the handler. The
  text of the \<open>system\<close> message is a template literal inside the updater passed to
  \<open>setMessages\<close>: it is computed when React applies the queued updates, and a
  \<open>TypeError\<close> there is a failure of the updater, with the state as it was before
  the block (the entries queued by \<open>setEntries\<close> are not committed either).
\<close>

definition applyStructuredData ::
    "js_runtime \<Rightarrow> turn_env \<Rightarrow> json \<Rightarrow> app_state \<Rightarrow> turn_failure option \<times> app_state" where
  "applyStructuredData rt env sd st =
     (case hasCandidates rt sd of
        None \<Rightarrow> (Some (HandlerThrows TypeError), st)
      | Some b \<Rightarrow>
          if \<not> b then (None, st)
          else (case sd of
                  JArr ds \<Rightarrow>
                    (case toEntries (today env) (entry_rnd env) 0 ds of
                       Inl e \<Rightarrow> (Some (HandlerThrows e), st)
                     | Inr newEntries \<Rightarrow>
                         (let st1 = st\<lparr>entries := entries st @ newEntries\<rparr>;
                              entryIds = map e_id newEntries
                          in case savedText rt newEntries of
                               None \<Rightarrow> (Some (UpdaterThrows TypeError), st)
                             | Some txt \<Rightarrow>
                                 (None, st1\<lparr>messages := messages st1 @
                                    [\<lparr>m_role = System, m_text = txt, m_timestamp = t_system env,
                                      m_relatedEntryIds = Some entryIds\<rparr>]\<rparr>)))
                | _ \<Rightarrow> (Some (HandlerThrows TypeError), st)))"

text \<open>
  The second half of \<open>handleSendMessage\<close>, from \<open>if (chatSettings.organizerEnabled)\<close>
  on. The extraction call is in flight only when the API key is set; a stop pressed
  meanwhile runs \<open>handleStop\<close>, and \<open>organizeInput\<close>, which takes no signal, goes on.
  When the handler throws, the state is the one at the throw. When an updater throws, the
  handler had run to its end: \<open>abortControllerRef.current = null\<close>, an assignment to a
  ref, has happened, while \<open>setIsProcessing(false)\<close>, queued with the failing update, is
  not committed.
\<close>

definition extractPhase ::
    "js_runtime \<Rightarrow> turn_env \<Rightarrow> string \<Rightarrow> request list \<Rightarrow> app_state \<Rightarrow> turn_result" where
  "extractPhase rt env userText reqs st =
     (let finish = (\<lambda>s. s\<lparr>isProcessing := False, abortControllerRef := None\<rparr>)
      in if organizerEnabled (chatSettings st)
         then (let reqs1 = reqs @ (if api_key env then [ExtractRequest userText (today env)] else []);
                   st1 = (if api_key env \<and> stop env = StopDuringExtract then handleStop st else st)
               in case organizeInput (api_key env) rt (extract_outcome env) of
                    Inl e \<Rightarrow>
                      \<lparr>tr_raised = Some (HandlerThrows e), tr_requests = reqs1, tr_state = st1\<rparr>
                  | Inr structuredData \<Rightarrow>
                      (case applyStructuredData rt env structuredData st1 of
                         (Some (HandlerThrows e), st2) \<Rightarrow>
                           \<lparr>tr_raised = Some (HandlerThrows e), tr_requests = reqs1, tr_state = st2\<rparr>
                       | (Some (UpdaterThrows e), st2) \<Rightarrow>
                           \<lparr>tr_raised = Some (UpdaterThrows e), tr_requests = reqs1,
                            tr_state = st2\<lparr>abortControllerRef := None\<rparr>\<rparr>
                       | (None, st2) \<Rightarrow>
                           \<lparr>tr_raised = None, tr_requests = reqs1, tr_state = finish st2\<rparr>))
         else \<lparr>tr_raised = None, tr_requests = reqs, tr_state = finish st\<rparr>)"

text \<open>
  \<open>handleSendMessage()\<close>. The conversational call is in flight only when the API key
  is set; a stop pressed meanwhile runs \<open>handleStop\<close>, whose \<open>abort()\<close> makes the abort
  listener reject the race with the message \<open>Aborted\<close>. \<open>controller.signal.aborted\<close>
  is the flag held by \<open>abortControllerRef\<close>, which points to the controller of this run.
\<close>

definition handleSendMessage :: "js_runtime \<Rightarrow> turn_env \<Rightarrow> app_state \<Rightarrow> turn_result" where
  "handleSendMessage rt env st =
     (if String_trim rt (inputText st) = [] then \<lparr>tr_raised = None, tr_requests = [], tr_state = st\<rparr>
      else if isProcessing st then \<lparr>tr_raised = None, tr_requests = [], tr_state = st\<rparr>
      else
        (let userMsg = \<lparr>m_role = User, m_text = inputText st, m_timestamp = t_user env,
                        m_relatedEntryIds = None\<rparr>;
             st1 = st\<lparr>abortControllerRef := Some False,
                      isProcessing := True,
                      messages := messages st @ [userMsg],
                      inputText := [],
                      rawLogs := rawLogs st @
                        [\<lparr>rl_id = rawlog_rnd env, rl_timestamp = m_timestamp userMsg,
                          rl_text = m_text userMsg\<rparr>]\<rparr>;
             relevantHistory = getFilteredHistory rt (now_history env) st
         in if chatEnabled (chatSettings st)
            then (let stopped = (api_key env \<and> stop env = StopDuringChat);
                      reqs = (if api_key env then [ChatRequest relevantHistory (m_text userMsg)] else []);
                      st2 = (if stopped then handleStop st1 else st1);
                      out = (if stopped then Rejected ''Aborted'' else chat_outcome env);
                      r = chatWithGemini (api_key env) False out;
                      chatResponse = (if r = [] then ''...'' else r)
                  in if abortControllerRef st2 = Some True
                     then \<lparr>tr_raised = None, tr_requests = reqs,
                           tr_state = st2\<lparr>isProcessing := False\<rparr>\<rparr>
                     else extractPhase rt env (m_text userMsg) reqs
                            (st2\<lparr>messages := messages st2 @
                               [\<lparr>m_role = Model, m_text = chatResponse, m_timestamp = t_model env,
                                 m_relatedEntryIds = None\<rparr>]\<rparr>))
            else extractPhase rt env (m_text userMsg) [] st1))"

text \<open>\<open>handleUndo(msgIndex, entryIds)\<close>.\<close>

definition handleUndo :: "nat \<Rightarrow> string list \<Rightarrow> app_state \<Rightarrow> app_state" where
  "handleUndo msgIndex entryIds st =
     st\<lparr>entries := filter (\<lambda>e. e_id e \<notin> set entryIds) (entries st),
        messages := map (\<lambda>(i, m). if i = msgIndex then m\<lparr>m_text := m_text m @ '' (Revoked)''\<rparr> else m)
                      (enumerate 0 (messages st))\<rparr>"

text \<open>
  The Revoke control of the message at \<open>idx\<close>: the chat view renders it for a
  \<open>system\<close> message with \<open>relatedEntryIds\<close> whose text does not include
  \<open>(Revoked)\<close>, and a click calls \<open>handleUndo(idx, msg.relatedEntryIds)\<close>. Where the
  control is not rendered there is nothing to click and the state stays.
\<close>

definition clickRevoke :: "nat \<Rightarrow> app_state \<Rightarrow> app_state" where
  "clickRevoke idx st =
     (if idx < length (messages st)
      then (let msg = messages st ! idx
            in case m_relatedEntryIds msg of
                 None \<Rightarrow> st
               | Some ids \<Rightarrow>
                   if m_role msg = System \<and> \<not> sublist ''(Revoked)'' (m_text msg)
                   then handleUndo idx ids st
                   else st)
      else st)"

section \<open>Initial state\<close>

text \<open>
  The state of \<open>Index\<close> before anything is loaded or done: the \<open>useState\<close> defaults.
  \<open>isoToday\<close> is \<open>new Date().toISOString().split('T')[0]\<close> at that moment.
\<close>

definition initial_state :: "string \<Rightarrow> app_state" where
  "initial_state isoToday =
     \<lparr>entries = [], messages = [], rawLogs = [], inputText = [], isProcessing = False,
      abortControllerRef = None,
      chatSettings = \<lparr>chatEnabled = True, organizerEnabled = True, contextRounds = 10,
        contextMode = Global, customStartDate = isoToday, customEndDate = isoToday\<rparr>,
      customSchemas = INITIAL_SCHEMAS, groups = INITIAL_GROUPS,
      categoryMeta = INITIAL_CATEGORY_META, editingSchemaCat = None\<rparr>"

section \<open>Candidates of the extraction output\<close>




section \<open>A runtime and inputs for concrete runs\<close>

text \<open>
  The days-to-date conversion of the proleptic Gregorian calendar: day number since
  1970-01-01 to (year, month from 0, day of the month).
\<close>

definition civil_from_days :: "int \<Rightarrow> int \<times> int \<times> int" where
  "civil_from_days z0 =
     (let z = z0 + 719468;
          era = z div 146097;
          doe = z - era * 146097;
          yoe = (doe - doe div 1460 + doe div 36524 - doe div 146096) div 365;
          y = yoe + era * 400;
          doy = doe - (365 * yoe + yoe div 4 - yoe div 100);
          mp = (5 * doy + 2) div 153;
          d = doy - (153 * mp + 2) div 5 + 1;
          m = (if mp < 10 then mp + 3 else mp - 9)
      in (if m \<le> 2 then y + 1 else y, m - 1, d))"

definition txt_run :: string where
  \<open>txt_run = ''[{"date":"2026-01-18","category":"exercise","event":"Run","details":{"summary":"ran 5km","time":"07:30"}}]''\<close>

definition txt_unknown :: string where
  \<open>txt_unknown = ''[{"date":"2026-01-18","category":"nonsense","event":"Run","details":{}},{"date":"2026-01-18","event":"Nap","details":{}}]''\<close>

definition txt_object :: string where
  "txt_object = ''{}''"

definition ascii_trim :: "string \<Rightarrow> string" where
  "ascii_trim s =
     (let ws = (\<lambda>c. c \<in> set [CHR 0x09, CHR 0x0A, CHR 0x0B, CHR 0x0C, CHR 0x0D, CHR '' ''])
      in rev (dropWhile ws (rev (dropWhile ws s))))"

text \<open>
  The runtime of the concrete runs: an engine in the UTC time zone, as far as the runs
  go. \<open>JSON.parse\<close> and the parsing of a date string are given on the texts that the
  runs use and answer \<open>SyntaxError\<close> and \<open>NaN\<close> elsewhere; \<open>trim\<close> strips ASCII white
  space; no run converts a number, and both number conversions are constant.
\<close>

definition sample_runtime :: js_runtime where
  "sample_runtime =
     \<lparr>JSON_parse = (\<lambda>s.
        if s = txt_run then
          Some (JArr [JObj [(''date'', JStr ''2026-01-18''), (''category'', JStr ''exercise''),
            (''event'', JStr ''Run''),
            (''details'', JObj [(''summary'', JStr ''ran 5km''), (''time'', JStr ''07:30'')])]])
        else if s = txt_unknown then
          Some (JArr [JObj [(''date'', JStr ''2026-01-18''), (''category'', JStr ''nonsense''),
              (''event'', JStr ''Run''), (''details'', JObj [])],
            JObj [(''date'', JStr ''2026-01-18''), (''event'', JStr ''Nap''), (''details'', JObj [])]])
        else if s = txt_object then Some (JObj [])
        else None),
      Date_getTime = (\<lambda>s.
        if s = ''2026-01-18'' then Some 1768694400000
        else if s = ''1970-01-01'' then Some 0
        else None),
      Date_ymd = (\<lambda>t. civil_from_days (t div 86400000)),
      Date_setHours = (\<lambda>t h m s ms. (t div 86400000) * 86400000 + ((h * 60 + m) * 60 + s) * 1000 + ms),
      Date_setDate = (\<lambda>t d. t + (d - snd (snd (civil_from_days (t div 86400000)))) * 86400000),
      Number_toString = (\<lambda>n. ''0''),
      String_toNumber = (\<lambda>s. None),
      String_trim = ascii_trim\<rparr>"

text \<open>The user has typed a message into the fresh application.\<close>

definition composing_state :: app_state where
  "composing_state = (initial_state ''2026-01-18'')\<lparr>inputText := ''ran 5km''\<rparr>"

text \<open>
  A turn on 2026-01-18 at 07:30 UTC in which both model calls answer and nobody presses
  stop.
\<close>

definition sample_env :: turn_env where
  "sample_env =
     \<lparr>api_key = True, t_user = 1768721400000, rawlog_rnd = ''k3j9x0a1b'',
      now_history = 1768721400000, chat_outcome = Fulfilled (Some ''Nice run!''),
      t_model = 1768721402000, today = ''2026-01-18'',
      extract_outcome = Fulfilled (Some txt_run),
      entry_rnd = (\<lambda>i. if i = 0 then ''a1b2c3d4e'' else ''f5g6h7i8j''),
      t_system = 1768721404000, stop = NoStop\<rparr>"

text \<open>
  Two user messages: one of 2026-01-18 07:30 UTC and one of 2026-01-19 00:00:00.000 UTC,
  the instant one day after the start of 2026-01-18.
\<close>

definition two_user_messages :: "ChatMessage list" where
  "two_user_messages =
     [\<lparr>m_role = User, m_text = ''first'', m_timestamp = 1768721400000, m_relatedEntryIds = None\<rparr>,
      \<lparr>m_role = User, m_text = ''second'', m_timestamp = 1768780800000, m_relatedEntryIds = None\<rparr>]"

text \<open>The depth box of the chat settings was emptied: \<open>contextRounds\<close> is 0.\<close>

definition zero_rounds_state :: app_state where
  "zero_rounds_state =
     (initial_state ''2026-01-18'')
       \<lparr>messages := two_user_messages,
        chatSettings := (chatSettings (initial_state ''2026-01-18''))\<lparr>contextRounds := 0\<rparr>\<rparr>"

text \<open>Custom mode from 2026-01-18 to 2026-01-18, unbounded depth.\<close>

definition custom_state :: app_state where
  "custom_state =
     (initial_state ''2026-01-18'')
       \<lparr>messages := two_user_messages,
        chatSettings := (chatSettings (initial_state ''2026-01-18''))
          \<lparr>contextMode := Custom, contextRounds := 9999\<rparr>\<rparr>"

text \<open>
  The state after a turn that saved one entry: the entry and the \<open>system\<close> message
  announcing it, at index 0.
\<close>

definition saved_state :: app_state where
  "saved_state =
     (initial_state ''2026-01-18'')
       \<lparr>entries := [\<lparr>e_id = ''a1b2c3d4e'', e_date = JStr ''2026-01-18'',
                     e_category = Some (JStr ''exercise''), e_event = Some (JStr ''Run''),
                     e_details = JObj [], e_image = None\<rparr>],
        messages := [\<lparr>m_role = System, m_text = ''Saved: [2026-01-18] Run'',
                      m_timestamp = 1768721404000, m_relatedEntryIds = Some [''a1b2c3d4e'']\<rparr>]\<rparr>"

section \<open>Properties of the taxonomy registry\<close>

lemma createSchema_keys:
  "map fs_key (createSchema fs) = [''summary'', ''time'', ''duration''] @ map fs_key fs @ [''notes'']"
  by (simp add: createSchema_def)

lemma createSchema_empty_keys: "map fs_key (createSchema []) = standardFields"
  by (simp add: createSchema_keys standardFields_def)

lemma createSchema_has_standard: "set standardFields \<subseteq> fs_key ` set (createSchema fs)"
proof -
  have "set standardFields \<subseteq> set (map fs_key (createSchema fs))"
    unfolding createSchema_keys standardFields_def by auto
  then show ?thesis by simp
qed

lemma fieldsOf_update:
  "fieldsOf (AList.update k v al) k' = (if k' = k then v else fieldsOf al k')"
  by (simp add: fieldsOf_def update_conv')

lemma addCategory_seeds_standard:
  assumes "lbl \<noteq> []"
  shows "map fs_key (fieldsOf (customSchemas (addCategory (Some lbl) rnd gid st)) (''cat_'' @ rnd))
           = standardFields"
  using assms by (simp add: addCategory_def Let_def fieldsOf_update createSchema_empty_keys)

lemma removeField_standard_refused:
  assumes "editingSchemaCat st = Some cat" and "cat \<noteq> []"
    and "idx < length (fieldsOf (customSchemas st) cat)"
    and "fs_key (fieldsOf (customSchemas st) cat ! idx) \<in> set standardFields"
  shows "removeField confirmed idx st = Inr (Some ''Cannot delete standard fields'', st)"
  using assms by (simp add: removeField_def Let_def)

lemma removeField_keeps_standard:
  assumes "removeField confirmed idx st = Inr (a, st')"
    and "k \<in> set standardFields" and "k \<in> fs_key ` set (fieldsOf (customSchemas st) c)"
  shows "k \<in> fs_key ` set (fieldsOf (customSchemas st') c)"
proof (cases "editingSchemaCat st")
  case None
  with assms show ?thesis by (simp add: removeField_def)
next
  case (Some cat)
  let ?fs = "fieldsOf (customSchemas st) cat"
  show ?thesis
  proof (cases "cat \<noteq> [] \<and> idx < length ?fs \<and> fs_key (?fs ! idx) \<notin> set standardFields
                  \<and> confirmed")
    case False
    with assms Some have "st' = st"
      by (auto simp: removeField_def Let_def split: if_splits)
    with assms show ?thesis by simp
  next
    case True
    with assms(1) Some
    have st': "customSchemas st' = AList.update cat (take idx ?fs @ drop (Suc idx) ?fs) (customSchemas st)"
      by (auto simp: removeField_def Let_def split: if_splits)
    show ?thesis
    proof (cases "c = cat")
      case False
      with st' assms(3) show ?thesis by (simp add: fieldsOf_update)
    next
      case c: True
      from assms(3) c obtain f where f: "f \<in> set ?fs" "fs_key f = k" by auto
      then obtain j where j: "j < length ?fs" "?fs ! j = f" by (auto simp: in_set_conv_nth)
      with f True assms(2) have "j \<noteq> idx" by auto
      have "?fs = take idx ?fs @ (?fs ! idx) # drop (Suc idx) ?fs"
        using True by (simp add: id_take_nth_drop)
      then have "set ?fs = set (take idx ?fs @ drop (Suc idx) ?fs) \<union> {?fs ! idx}"
        by (metis Un_insert_right list.simps(15) set_append sup_bot.right_neutral)
      with f True assms(2) have "f \<in> set (take idx ?fs @ drop (Suc idx) ?fs)" by auto
      with f st' c show ?thesis by (auto simp: fieldsOf_update)
    qed
  qed
qed

text \<open>
  C9. For every group id of the fixed core set (the ids of \<open>INITIAL_GROUPS\<close>),
  \<open>deleteGroup\<close> is rejected with the alert "Cannot delete core groups." and leaves the
  whole state, so also the groups collection, unchanged, whatever the user would answer
  to a confirmation.
\<close>

theorem deleteGroup_core_rejected:
  assumes "gid \<in> set (map g_id INITIAL_GROUPS)"
  shows "deleteGroup confirmed gid st = (Some ''Cannot delete core groups.'', st)"
proof -
  from assms have "list_ex (\<lambda>g. g_id g = gid) INITIAL_GROUPS"
    by (auto simp: list_ex_iff)
  then show ?thesis by (simp add: deleteGroup_def)
qed

theorem deleteGroup_core_rejected_witness:
  "''life'' \<in> set (map g_id INITIAL_GROUPS) \<and>
   deleteGroup True ''life'' (initial_state ''2026-01-18'')
     = (Some ''Cannot delete core groups.'', initial_state ''2026-01-18'')"
proof -
  have h: "''life'' \<in> set (map g_id INITIAL_GROUPS)" by (simp add: INITIAL_GROUPS_def)
  from h deleteGroup_core_rejected [OF h] show ?thesis by simp
qed

text \<open>
  C10. \<open>deleteCategory(key)\<close> changes no field schema and no entry: the
  \<open>customSchemas\<close> mapping (so also the entry for \<open>key\<close>) and the entry store are the
  same afterwards, whatever the category of the entries. Once the user has confirmed,
  the row of \<open>key\<close> is gone from \<open>categoryMeta\<close> and every other row is as before.
\<close>

theorem deleteCategory_frame:
  "customSchemas (deleteCategory confirmed k st) = customSchemas st \<and>
   entries (deleteCategory confirmed k st) = entries st \<and>
   categoryMeta (deleteCategory confirmed k st)
     = (if confirmed then filter (\<lambda>row. fst row \<noteq> k) (categoryMeta st) else categoryMeta st) \<and>
   map_of (categoryMeta (deleteCategory confirmed k st))
     = (if confirmed then (map_of (categoryMeta st))(k := None) else map_of (categoryMeta st))"
proof -
  have d: "AList.delete k (categoryMeta st) = filter (\<lambda>row. fst row \<noteq> k) (categoryMeta st)"
    by (auto simp: AList.delete_eq case_prod_beta intro: filter_cong)
  have m: "map_of (AList.delete k (categoryMeta st)) = (map_of (categoryMeta st))(k := None)"
    by (rule delete_conv')
  show ?thesis
  proof (cases confirmed)
    case True
    then have "categoryMeta (deleteCategory confirmed k st) = AList.delete k (categoryMeta st)"
      by (simp add: deleteCategory_def Let_def)
    with True d m show ?thesis by (simp add: deleteCategory_def Let_def)
  next
    case False
    then show ?thesis by (simp add: deleteCategory_def)
  qed
qed

text \<open>
  C7 at the category \<open>other\<close>: it is a category of the initial registry, its field list
  (\<open>customSchemas[cat] || []\<close>) is empty, and a field added to it gives a list that still
  has none of the four standard fields.
\<close>

theorem other_lacks_standard_fields:
  "''other'' \<in> set (map fst (categoryMeta (initial_state ''2026-01-18''))) \<and>
   fieldsOf (customSchemas (initial_state ''2026-01-18'')) ''other'' = [] \<and>
   map fs_key (fieldsOf (customSchemas
       (addField ''ab12cd'' ((initial_state ''2026-01-18'')\<lparr>editingSchemaCat := Some ''other''\<rparr>)))
       ''other'') = [''field_ab12cd'']"
proof -
  have m: "map_of INITIAL_SCHEMAS ''other'' = None"
    by (simp add: INITIAL_SCHEMAS_def)
  have c: "''other'' \<in> set (map fst INITIAL_CATEGORY_META)"
    by (simp add: INITIAL_CATEGORY_META_def)
  from m c show ?thesis
    by (simp add: initial_state_def fieldsOf_def addField_def Let_def update_conv')
qed

section \<open>Properties of the context window selector\<close>

lemma js_slice_is_drop: "\<exists>n. js_slice k xs = drop n xs"
  by (auto simp: js_slice_def Let_def)

lemma js_slice_neg_length:
  assumes "0 < n"
  shows "length (js_slice (- n) xs) \<le> nat n"
  using assms by (auto simp: js_slice_def Let_def max_def)

lemma js_slice_zero: "js_slice 0 xs = xs"
  by (simp add: js_slice_def)

lemma subseq_drop_self: "subseq (drop n xs) xs"
  by (simp add: suffix_drop suffix_imp_sublist sublist_imp_subseq)

lemma getFilteredHistory_shape:
  "\<exists>P n. getFilteredHistory rt now st
     = drop n (filter P (filter (\<lambda>m. m_role m = User) (messages st)))"
proof -
  let ?u = "filter (\<lambda>m. m_role m = User) (messages st)"
  obtain P where P: "(case contextMode (chatSettings st) of
               Today \<Rightarrow> filter (\<lambda>m. isSameDay rt (m_timestamp m) now) ?u
             | Week \<Rightarrow>
                 (case getRollingWeekRange rt now of
                    (start, end2) \<Rightarrow>
                      filter (\<lambda>m. m_timestamp m \<ge> start \<and> m_timestamp m \<le> end2) ?u)
             | Custom \<Rightarrow>
                 (let s = Date_getTime rt (customStartDate (chatSettings st));
                      e = map_option (\<lambda>t. t + 86400000) (Date_getTime rt (customEndDate (chatSettings st)))
                  in filter (\<lambda>m. js_ge (m_timestamp m) s \<and> js_le (m_timestamp m) e) ?u)
             | Global \<Rightarrow> ?u) = filter P ?u"
  proof (cases "contextMode (chatSettings st)")
    case Global
    have "?u = filter (\<lambda>m. True) ?u" by simp
    with Global that show ?thesis by (metis (mono_tags, lifting) ContextMode.simps(13))
  next
    case Today
    with that show ?thesis by simp
  next
    case Week
    with that show ?thesis by (cases "getRollingWeekRange rt now") simp
  next
    case Custom
    with that show ?thesis by (simp add: Let_def)
  qed
  show ?thesis
  proof (cases "contextRounds (chatSettings st) < 9999")
    case True
    obtain n where "js_slice (- contextRounds (chatSettings st)) (filter P ?u) = drop n (filter P ?u)"
      using js_slice_is_drop by blast
    with True P show ?thesis
      unfolding getFilteredHistory_def Let_def by auto
  next
    case False
    have "filter P ?u = drop 0 (filter P ?u)" by simp
    with False P show ?thesis
      unfolding getFilteredHistory_def Let_def by (metis (no_types, lifting))
  qed
qed

lemma getFilteredHistory_subseq: "subseq (getFilteredHistory rt now st) (messages st)"
proof -
  obtain P n where "getFilteredHistory rt now st
     = drop n (filter P (filter (\<lambda>m. m_role m = User) (messages st)))"
    using getFilteredHistory_shape by blast
  moreover have "subseq (drop n (filter P (filter (\<lambda>m. m_role m = User) (messages st))))
                   (filter P (filter (\<lambda>m. m_role m = User) (messages st)))"
    by (rule subseq_drop_self)
  moreover have "subseq (filter P (filter (\<lambda>m. m_role m = User) (messages st))) (messages st)"
    by (meson subseq_filter_left subseq_order.trans)
  ultimately show ?thesis by (metis subseq_order.trans)
qed

lemma getFilteredHistory_user:
  assumes "m \<in> set (getFilteredHistory rt now st)"
  shows "m_role m = User"
proof -
  obtain P n where "getFilteredHistory rt now st
     = drop n (filter P (filter (\<lambda>m. m_role m = User) (messages st)))"
    using getFilteredHistory_shape by blast
  with assms have "m \<in> set (filter P (filter (\<lambda>m. m_role m = User) (messages st)))"
    by (metis in_set_dropD)
  then show ?thesis by simp
qed

lemma getFilteredHistory_bounded:
  assumes "0 < contextRounds (chatSettings st)" and "contextRounds (chatSettings st) < 9999"
  shows "int (length (getFilteredHistory rt now st)) \<le> contextRounds (chatSettings st)"
proof -
  have "\<exists>xs. getFilteredHistory rt now st = js_slice (- contextRounds (chatSettings st)) xs"
    using assms(2) unfolding getFilteredHistory_def Let_def by auto
  then obtain xs where "getFilteredHistory rt now st = js_slice (- contextRounds (chatSettings st)) xs" ..
  then have "length (getFilteredHistory rt now st) \<le> nat (contextRounds (chatSettings st))"
    using js_slice_neg_length [OF assms(1), of xs] by simp
  with assms(1) show ?thesis by linarith
qed

lemma getFilteredHistory_custom:
  assumes "contextMode (chatSettings st) = Custom"
    and "9999 \<le> contextRounds (chatSettings st)"
    and "Date_getTime rt (customStartDate (chatSettings st)) = Some s"
    and "Date_getTime rt (customEndDate (chatSettings st)) = Some e"
  shows "getFilteredHistory rt now st
           = filter (\<lambda>m. s \<le> m_timestamp m \<and> m_timestamp m \<le> e + 86400000)
               (filter (\<lambda>m. m_role m = User) (messages st))"
  using assms by (simp add: getFilteredHistory_def Let_def js_ge_def js_le_def)

text \<open>
  C4 at \<open>contextRounds = 0\<close>, the value the settings store when the depth box is
  emptied: \<open>slice(-0)\<close> is \<open>slice(0)\<close>, so the selector returns both user messages,
  two more than the bound 0.
\<close>

theorem zero_rounds_keeps_all:
  "contextRounds (chatSettings zero_rounds_state) = 0 \<and>
   getFilteredHistory sample_runtime 1768790000000 zero_rounds_state = two_user_messages \<and>
   length (getFilteredHistory sample_runtime 1768790000000 zero_rounds_state) = 2"
  by (simp add: getFilteredHistory_def zero_rounds_state_def initial_state_def
      two_user_messages_def js_slice_def)

text \<open>
  C5 at the instant one day after the start of \<open>customEndDate\<close>: with both dates
  2026-01-18 (time value 1768694400000), the message stamped 1768694400000 + 86400000
  passes the custom date filter, because the upper comparison is \<open><=\<close>.
\<close>

theorem custom_includes_next_midnight:
  "Date_getTime sample_runtime (customStartDate (chatSettings custom_state)) = Some 1768694400000 \<and>
   Date_getTime sample_runtime (customEndDate (chatSettings custom_state)) = Some 1768694400000 \<and>
   m_timestamp (two_user_messages ! 1) = 1768694400000 + 86400000 \<and>
   getFilteredHistory sample_runtime 1768790000000 custom_state = two_user_messages"
  by (simp add: getFilteredHistory_def custom_state_def initial_state_def two_user_messages_def
      sample_runtime_def js_ge_def js_le_def)

section \<open>Properties of the session controller\<close>

lemma sample_texts_distinct:
  "txt_run \<noteq> txt_unknown" "txt_run \<noteq> txt_object" "txt_unknown \<noteq> txt_object"
  "txt_unknown \<noteq> txt_run" "txt_object \<noteq> txt_run" "txt_object \<noteq> txt_unknown"
  by (simp_all add: txt_run_def txt_unknown_def txt_object_def)

lemma sample_trim_ran: "String_trim sample_runtime ''ran 5km'' = ''ran 5km''"
  by (simp add: sample_runtime_def ascii_trim_def)

lemma sample_parse_run:
  "JSON_parse sample_runtime txt_run =
     Some (JArr [JObj [(''date'', JStr ''2026-01-18''), (''category'', JStr ''exercise''),
            (''event'', JStr ''Run''),
            (''details'', JObj [(''summary'', JStr ''ran 5km''), (''time'', JStr ''07:30'')])]])"
  by (simp add: sample_runtime_def)


lemma sample_parse_object: "JSON_parse sample_runtime txt_object = Some (JObj [])"
  by (simp add: sample_runtime_def sample_texts_distinct)

lemma txt_nonempty: "txt_run \<noteq> []" "txt_unknown \<noteq> []" "txt_object \<noteq> []"
  by (simp_all add: txt_run_def txt_unknown_def txt_object_def)

lemmas turn_defs = handleSendMessage_def extractPhase_def organizeInput_def organizeInput_try_def
  applyStructuredData_def hasCandidates_def toEntry_def savedText_def js_toString_opt_def
  chatWithGemini_def handleStop_def Let_def

lemma composing_simps:
  "inputText composing_state = ''ran 5km''" "isProcessing composing_state = False"
  "chatSettings composing_state = \<lparr>chatEnabled = True, organizerEnabled = True, contextRounds = 10,
        contextMode = Global, customStartDate = ''2026-01-18'', customEndDate = ''2026-01-18''\<rparr>"
  "messages composing_state = []" "entries composing_state = []" "rawLogs composing_state = []"
  "abortControllerRef composing_state = None"
  by (simp_all add: composing_state_def initial_state_def)

text \<open>
  A stop pressed while the conversational call is awaited: the turn ends with the user
  message and the raw log line appended, no \<open>model\<close> message, the entry store as it
  was and the busy flag cleared.
\<close>

lemma stop_during_chat_no_model_message:
  assumes "String_trim rt (inputText st) \<noteq> []" and "\<not> isProcessing st"
    and "chatEnabled (chatSettings st)" and "api_key env" and "stop env = StopDuringChat"
  shows "tr_state (handleSendMessage rt env st)
           = st\<lparr>abortControllerRef := Some True,
                 isProcessing := False,
                 messages := messages st @
                   [\<lparr>m_role = User, m_text = inputText st, m_timestamp = t_user env,
                     m_relatedEntryIds = None\<rparr>],
                 inputText := [],
                 rawLogs := rawLogs st @
                   [\<lparr>rl_id = rawlog_rnd env, rl_timestamp = t_user env, rl_text = inputText st\<rparr>]\<rparr>"
  using assms by (simp add: handleSendMessage_def handleStop_def Let_def)

text \<open>
  C1 for a stop pressed while the extraction call is awaited: both model calls were
  started, the stop ran \<open>handleStop\<close>, and the turn still appended the extracted entry
  to the entry store and the \<open>system\<close> message to the log.
\<close>

theorem stop_during_extraction_still_appends:
  "tr_requests (handleSendMessage sample_runtime (sample_env\<lparr>stop := StopDuringExtract\<rparr>) composing_state)
     = [ChatRequest [] ''ran 5km'', ExtractRequest ''ran 5km'' ''2026-01-18''] \<and>
   entries (tr_state (handleSendMessage sample_runtime (sample_env\<lparr>stop := StopDuringExtract\<rparr>) composing_state))
     = [\<lparr>e_id = ''a1b2c3d4e'', e_date = JStr ''2026-01-18'', e_category = Some (JStr ''exercise''),
         e_event = Some (JStr ''Run''),
         e_details = JObj [(''summary'', JStr ''ran 5km''), (''time'', JStr ''07:30'')],
         e_image = None\<rparr>] \<and>
   map m_role (messages (tr_state (handleSendMessage sample_runtime (sample_env\<lparr>stop := StopDuringExtract\<rparr>) composing_state)))
     = [User, Model, System]"
  by (simp add: turn_defs composing_simps sample_env_def sample_trim_ran sample_parse_run
      txt_nonempty getFilteredHistory_def js_slice_def)









lemma enumerate_map_at:
  "map (\<lambda>(j, m). if j = i then f m else m) (enumerate n xs)
     = (if n \<le> i \<and> i < n + length xs then xs[i - n := f (xs ! (i - n))] else xs)"
proof (induction xs arbitrary: n)
  case Nil
  then show ?case by simp
next
  case (Cons x xs)
  show ?case
  proof (cases "i = n")
    case True
    with Cons.IH [of "Suc n"] show ?thesis by simp
  next
    case False
    show ?thesis
    proof (cases "n < i")
      case True
      then have d: "i - n = Suc (i - Suc n)" by simp
      from True False Cons.IH [of "Suc n"] show ?thesis
        unfolding d by auto
    next
      case le: False
      with False Cons.IH [of "Suc n"] show ?thesis by simp
    qed
  qed
qed

lemma handleUndo_messages:
  "messages (handleUndo i ids st)
     = (if i < length (messages st)
        then (messages st)[i := (messages st ! i)\<lparr>m_text := m_text (messages st ! i) @ '' (Revoked)''\<rparr>]
        else messages st)"
  by (simp add: handleUndo_def enumerate_map_at)

lemma handleUndo_entries:
  "entries (handleUndo i ids st) = filter (\<lambda>e. e_id e \<notin> set ids) (entries st)"
  by (simp add: handleUndo_def)

lemma revoked_suffix_included: "sublist ''(Revoked)'' (t @ '' (Revoked)'')"
proof -
  have "t @ '' (Revoked)'' = (t @ '' '') @ ''(Revoked)'' @ []" by simp
  then show ?thesis by (metis sublist_appendI)
qed

lemma clickRevoke_idem: "clickRevoke idx (clickRevoke idx st) = clickRevoke idx st"
proof (cases "idx < length (messages st)")
  case False
  then show ?thesis by (simp add: clickRevoke_def)
next
  case inrange: True
  let ?m = "messages st ! idx"
  show ?thesis
  proof (cases "m_relatedEntryIds ?m")
    case None
    with inrange show ?thesis by (simp add: clickRevoke_def)
  next
    case (Some ids)
    show ?thesis
    proof (cases "m_role ?m = System \<and> \<not> sublist ''(Revoked)'' (m_text ?m)")
      case False
      with inrange Some have "clickRevoke idx st = st" by (auto simp: clickRevoke_def)
      then show ?thesis by simp
    next
      case True
      let ?st' = "handleUndo idx ids st"
      from inrange Some True have c: "clickRevoke idx st = ?st'" by (simp add: clickRevoke_def)
      from inrange have len: "idx < length (messages ?st')" by (simp add: handleUndo_messages)
      from inrange have m': "messages ?st' ! idx = ?m\<lparr>m_text := m_text ?m @ '' (Revoked)''\<rparr>"
        by (simp add: handleUndo_messages)
      have "sublist ''(Revoked)'' (m_text (messages ?st' ! idx))"
        unfolding m' using revoked_suffix_included by simp
      with len have "clickRevoke idx ?st' = ?st'"
        by (simp add: clickRevoke_def Let_def split: option.splits)
      with c show ?thesis by simp
    qed
  qed
qed

text \<open>
  C3, amended. Two calls of \<open>handleUndo\<close> leave the same entry store as one call.
  The revoked mark is one-way: after a call the text of the message includes
  \<open>(Revoked)\<close>. It is not idempotent on the text, to which each call appends
  \<open> (Revoked)\<close> again; revoking through the Revoke control, which is not rendered once
  the text includes \<open>(Revoked)\<close>, is idempotent on the whole state.
\<close>

theorem undo_twice:
  "entries (handleUndo i ids (handleUndo i ids st)) = entries (handleUndo i ids st) \<and>
   clickRevoke i (clickRevoke i st) = clickRevoke i st \<and>
   (i < length (messages st) \<longrightarrow>
      sublist ''(Revoked)'' (m_text (messages (handleUndo i ids st) ! i)) \<and>
      m_text (messages (handleUndo i ids (handleUndo i ids st)) ! i)
        = m_text (messages st ! i) @ '' (Revoked)'' @ '' (Revoked)'')"
proof -
  have a: "entries (handleUndo i ids (handleUndo i ids st)) = entries (handleUndo i ids st)"
    by (simp add: handleUndo_entries)
  have b: "i < length (messages st) \<longrightarrow>
      sublist ''(Revoked)'' (m_text (messages (handleUndo i ids st) ! i)) \<and>
      m_text (messages (handleUndo i ids (handleUndo i ids st)) ! i)
        = m_text (messages st ! i) @ '' (Revoked)'' @ '' (Revoked)''"
    using revoked_suffix_included by (simp add: handleUndo_messages)
  from a b clickRevoke_idem show ?thesis by blast
qed

theorem undo_twice_witness:
  "0 < length (messages saved_state) \<and>
   entries (handleUndo 0 [''a1b2c3d4e''] (handleUndo 0 [''a1b2c3d4e''] saved_state)) = [] \<and>
   entries (handleUndo 0 [''a1b2c3d4e''] saved_state) = [] \<and>
   clickRevoke 0 (clickRevoke 0 saved_state) = clickRevoke 0 saved_state \<and>
   sublist ''(Revoked)'' (m_text (messages (handleUndo 0 [''a1b2c3d4e''] saved_state) ! 0)) \<and>
   m_text (messages (handleUndo 0 [''a1b2c3d4e''] (handleUndo 0 [''a1b2c3d4e''] saved_state)) ! 0)
     = ''Saved: [2026-01-18] Run (Revoked) (Revoked)''"
proof -
  have h: "0 < length (messages saved_state)" by (simp add: saved_state_def)
  have e: "entries (handleUndo 0 [''a1b2c3d4e''] saved_state) = []"
    by (simp add: handleUndo_entries saved_state_def)
  have t: "m_text (messages saved_state ! 0) = ''Saved: [2026-01-18] Run''"
    by (simp add: saved_state_def)
  from undo_twice [of 0 "[''a1b2c3d4e'']" saved_state] h e t show ?thesis by simp
qed

text \<open>
  C3 as stated fails on the message log: a second \<open>handleUndo\<close> on the same message
  changes it again.
\<close>

theorem undo_twice_changes_message:
  "messages (handleUndo 0 [''a1b2c3d4e''] (handleUndo 0 [''a1b2c3d4e''] saved_state))
     \<noteq> messages (handleUndo 0 [''a1b2c3d4e''] saved_state)"
  by (simp add: handleUndo_messages saved_state_def)

text \<open>
  C8. While the busy flag \<open>isProcessing\<close> is set, \<open>handleSendMessage\<close> returns at
  once: the state is unchanged (no user message, no raw log line, nothing else) and no
  model call is started.
\<close>

theorem busy_submit_rejected:
  assumes "isProcessing st"
  shows "handleSendMessage rt env st = \<lparr>tr_raised = None, tr_requests = [], tr_state = st\<rparr>"
  using assms by (simp add: handleSendMessage_def)

theorem busy_submit_rejected_witness:
  "isProcessing (composing_state\<lparr>isProcessing := True\<rparr>) \<and>
   handleSendMessage sample_runtime sample_env (composing_state\<lparr>isProcessing := True\<rparr>)
     = \<lparr>tr_raised = None, tr_requests = [], tr_state = composing_state\<lparr>isProcessing := True\<rparr>\<rparr>"
proof -
  have h: "isProcessing (composing_state\<lparr>isProcessing := True\<rparr>)" by simp
  from h busy_submit_rejected [OF h] show ?thesis by simp
qed

text \<open>
  What holds of \<open>organizeInput\<close> on bad output: it never raises, and it returns the
  empty array when the call is rejected, when the response has no text or an empty
  text, and when the text does not parse.
\<close>

lemma organizeInput_never_raises: "\<exists>v. organizeInput k rt out = Inr v"
  by (auto simp: organizeInput_def split: sum.splits)

lemma organizeInput_failure_fallback:
  "organizeInput k rt (Rejected msg) = Inr (JArr [])"
  "organizeInput k rt (Fulfilled None) = Inr (JArr [])"
  "organizeInput k rt (Fulfilled (Some [])) = Inr (JArr [])"
  "JSON_parse rt t = None \<Longrightarrow> organizeInput k rt (Fulfilled (Some t)) = Inr (JArr [])"
  by (auto simp: organizeInput_def organizeInput_try_def)

text \<open>
  What the only caller makes of a non-array result that has a positive length, here a
  parsed non-empty string: \<open>structuredData.map\<close> is no function, the handler throws a
  \<open>TypeError\<close>, nothing is appended to the entry store and the busy flag stays set.
\<close>

lemma parsed_string_raises:
  assumes "String_trim rt (inputText st) \<noteq> []" and "\<not> isProcessing st"
    and "organizerEnabled (chatSettings st)" and "api_key env" and "stop env = NoStop"
    and "extract_outcome env = Fulfilled (Some t)" and "t \<noteq> []"
    and "JSON_parse rt t = Some (JStr str)" and "str \<noteq> []"
  shows "tr_raised (handleSendMessage rt env st) = Some (HandlerThrows TypeError) \<and>
         entries (tr_state (handleSendMessage rt env st)) = entries st \<and>
         isProcessing (tr_state (handleSendMessage rt env st))"
proof -
  have o: "organizeInput (api_key env) rt (extract_outcome env) = Inr (JStr str)"
    using assms by (simp add: organizeInput_def organizeInput_try_def)
  have a: "applyStructuredData rt env (JStr str) s = (Some (HandlerThrows TypeError), s)" for s
    using assms(9) by (simp add: applyStructuredData_def hasCandidates_def)
  have e: "tr_raised (extractPhase rt env u reqs s) = Some (HandlerThrows TypeError) \<and>
           tr_state (extractPhase rt env u reqs s) = s"
    if "organizerEnabled (chatSettings s)" for u reqs s
    using that o a assms(5) by (simp add: extractPhase_def Let_def)
  show ?thesis
  proof (cases "chatEnabled (chatSettings st)")
    case False
    with assms(1,2,3) show ?thesis
      by (simp add: handleSendMessage_def Let_def e)
  next
    case True
    with assms(1,2,3,4,5) show ?thesis
      by (simp add: handleSendMessage_def Let_def e)
  qed
qed

text \<open>
  C6 at external output that parses but is no array: for the response text \<open>{}\<close>,
  which \<open>JSON.parse\<close> turns into an empty object, \<open>organizeInput\<close> returns that
  object and not the empty sequence.
\<close>

theorem non_array_output_returned:
  "JSON_parse sample_runtime txt_object = Some (JObj []) \<and>
   organizeInput True sample_runtime (Fulfilled (Some txt_object)) = Inr (JObj []) \<and>
   organizeInput True sample_runtime (Fulfilled (Some txt_object)) \<noteq> Inr (JArr [])"
  by (simp add: organizeInput_def organizeInput_try_def sample_parse_object txt_nonempty)

end
